theory Spec2Isabelle
  imports Main "HOL-Library.Sublist"
begin

section \<open>Session protection (src/src/session-protection.js)\<close>

text \<open>
  A shallow embedding of the class \<open>SessionProtection\<close>. The instance fields are a
  record that every method takes and returns; the file system, the random source and the
  record of file-system effects are a second record, the \<open>world\<close>. What the module
  consumes from Electron and Node (the OS secret storage, the biometric prompt, the
  AES-256-GCM cipher object, \<open>JSON\<close>, the random bytes, failing I/O) is a record of
  collaborators, \<open>env\<close>: the methods are translated for every such collaborator.
  Every \<open>throw\<close> is a value: \<open>None\<close> or \<open>False\<close> in the first component.

  Left out: the console output, the file modes (\<open>0o600\<close>, \<open>0o700\<close>), the
  request for garbage collection in \<open>lock\<close>, and two steps of the constructor
  (\<open>_initSecureDirectory\<close> and \<open>_verifyIntegrity\<close>), which no theorem below is
  about. \<open>crypto.randomBytes\<close> is taken not to throw.
\<close>

subsection \<open>Buffers and hex\<close>

text \<open>
  A \<open>Buffer\<close> is a list of bytes; a \<open>char\<close> is one byte. A JavaScript string is
  modelled by its UTF-8 bytes, so writing a string to a file and \<open>toString('utf8')\<close>
  of well-formed bytes are the identity.
\<close>

type_synonym bytes = string

definition hexDigit :: "nat \<Rightarrow> char" where
  "hexDigit n = ''0123456789abcdef'' ! n"

definition hexValue :: "char \<Rightarrow> nat option" where
  "hexValue c =
     (let n = (of_char c :: nat) in
      if 48 \<le> n \<and> n \<le> 57 then Some (n - 48)
      else if 97 \<le> n \<and> n \<le> 102 then Some (n - 87)
      else if 65 \<le> n \<and> n \<le> 70 then Some (n - 55)
      else None)"

text \<open>\<open>buf.toString('hex')\<close>: two lower-case digits per byte.\<close>

definition toHex :: "bytes \<Rightarrow> string" where
  "toHex bs = concat (map (\<lambda>b. [hexDigit (of_char b div 16), hexDigit (of_char b mod 16)]) bs)"

text \<open>
  \<open>Buffer.from(s, 'hex')\<close>: pairs of digits are decoded until the first pair that is
  not two hex digits; a trailing single character is dropped.
\<close>

fun fromHex :: "string \<Rightarrow> bytes" where
  "fromHex (a # b # rest) =
     (case (hexValue a, hexValue b) of
        (Some x, Some y) \<Rightarrow> char_of (16 * x + y) # fromHex rest
      | _ \<Rightarrow> [])"
| "fromHex _ = []"

subsection \<open>Collaborators\<close>

datatype json = JNull | JBool bool | JNum int | JStr string
  | JArr "json list" | JObj "(string \<times> json) list"

datatype platform = Win32 | Darwin | OtherPlatform

type_synonym path = "string list"

text \<open>
  \<open>gcmEncrypt key iv text\<close> is \<open>createCipheriv('aes-256-gcm', key, iv)\<close>, \<open>update\<close>,
  \<open>final\<close> and \<open>getAuthTag\<close>: the ciphertext and the tag, or \<open>None\<close> when any of them
  throws. \<open>gcmDecrypt key iv tag ct\<close> is \<open>createDecipheriv\<close>, \<open>setAuthTag\<close>,
  \<open>update\<close> and \<open>final\<close>: the plaintext, or \<open>None\<close> when any of them throws.
  \<open>ioFails n\<close> says whether the \<open>n\<close>-th call into \<open>fs\<close> that can throw does.
\<close>

record env =
  userData :: path
  platform :: platform
  isEncryptionAvailable :: bool
  encryptString :: "string \<Rightarrow> bytes option"
  decryptString :: "bytes \<Rightarrow> string option"
  promptTouchID :: bool
  gcmEncrypt :: "bytes \<Rightarrow> bytes \<Rightarrow> string \<Rightarrow> (bytes \<times> bytes) option"
  gcmDecrypt :: "bytes \<Rightarrow> bytes \<Rightarrow> bytes \<Rightarrow> bytes \<Rightarrow> string option"
  jsonStringify :: "json \<Rightarrow> string"
  jsonParse :: "string \<Rightarrow> json option"
  randomSource :: "nat \<Rightarrow> char"
  ioFails :: "nat \<Rightarrow> bool"

subsection \<open>The file system and the random source\<close>

datatype fs_event = WriteFile path bytes | Unlink path | RmRecursive path

record world =
  files :: "path \<rightharpoonup> bytes"
  dirs :: "path set"
  rngPos :: nat
  ioCount :: nat
  trace :: "fs_event list"

definition tick :: "world \<Rightarrow> world" where
  "tick w = w\<lparr>ioCount := Suc (ioCount w)\<rparr>"

definition existsSync :: "path \<Rightarrow> world \<Rightarrow> bool" where
  "existsSync p w \<longleftrightarrow> p \<in> dom (files w) \<or> p \<in> dirs w"

definition readFileSync :: "env \<Rightarrow> path \<Rightarrow> world \<Rightarrow> bytes option \<times> world" where
  "readFileSync env p w = (if ioFails env (ioCount w) then None else files w p, tick w)"

text \<open>The size of a directory entry is platform-specific; the model reports 0.\<close>

definition statSync :: "env \<Rightarrow> path \<Rightarrow> world \<Rightarrow> nat option \<times> world" where
  "statSync env p w =
     (if ioFails env (ioCount w) then None
      else case files w p of
             Some c \<Rightarrow> Some (length c)
           | None \<Rightarrow> if p \<in> dirs w then Some 0 else None,
      tick w)"

definition writeFileSync :: "env \<Rightarrow> path \<Rightarrow> bytes \<Rightarrow> world \<Rightarrow> bool \<times> world" where
  "writeFileSync env p d w =
     (if ioFails env (ioCount w) \<or> p \<in> dirs w \<or> butlast p \<notin> dirs w then (False, tick w)
      else (True, (tick w)\<lparr>files := (files w)(p \<mapsto> d), trace := trace w @ [WriteFile p d]\<rparr>))"

definition unlinkSync :: "env \<Rightarrow> path \<Rightarrow> world \<Rightarrow> bool \<times> world" where
  "unlinkSync env p w =
     (if ioFails env (ioCount w) \<or> files w p = None then (False, tick w)
      else (True, (tick w)\<lparr>files := (files w)(p := None), trace := trace w @ [Unlink p]\<rparr>))"

text \<open>\<open>fs.rmSync(p, { recursive: true, force: true })\<close>.\<close>

definition rmSync :: "env \<Rightarrow> path \<Rightarrow> world \<Rightarrow> bool \<times> world" where
  "rmSync env p w =
     (if ioFails env (ioCount w) then (False, tick w)
      else (True, (tick w)\<lparr>files := (\<lambda>q. if prefix p q then None else files w q),
                             dirs := Set.filter (\<lambda>q. \<not> prefix p q) (dirs w),
                             trace := trace w @ [RmRecursive p]\<rparr>))"

definition randomBytes :: "env \<Rightarrow> nat \<Rightarrow> world \<Rightarrow> bytes \<times> world" where
  "randomBytes env n w =
     (map (randomSource env) [rngPos w ..< rngPos w + n], w\<lparr>rngPos := rngPos w + n\<rparr>)"

subsection \<open>The instance\<close>

record settings =
  requireBiometric :: bool
  lockOnMinimize :: bool
  autoLockMinutes :: nat
  secureClipboard :: bool
  preventScreenCapture :: bool

text \<open>
  \<open>lockTimeout\<close> is the pending timer: \<open>None\<close> is \<open>null\<close>, \<open>Some r\<close> a timer that
  fires once \<open>r\<close> more milliseconds have passed.
\<close>

record session_protection =
  isLocked :: bool
  lockTimeout :: "nat option"
  lockTimeoutMs :: nat
  settings :: settings

definition dataPath :: "env \<Rightarrow> path" where
  "dataPath env = userData env @ [''secure-session'']"

definition keyFile :: "env \<Rightarrow> path" where
  "keyFile env = dataPath env @ [''.session-key'']"

definition configFile :: "env \<Rightarrow> path" where
  "configFile env = dataPath env @ [''.security-config'']"

definition integrityFile :: "env \<Rightarrow> path" where
  "integrityFile env = dataPath env @ [''.integrity'']"

text \<open>The field initialisers of the constructor.\<close>

definition defaultSettings :: settings where
  "defaultSettings = \<lparr>requireBiometric = False, lockOnMinimize = False, autoLockMinutes = 30,
     secureClipboard = True, preventScreenCapture = False\<rparr>"

definition initialFields :: session_protection where
  "initialFields = \<lparr>isLocked = False, lockTimeout = None, lockTimeoutMs = 30 * 60 * 1000,
     settings = defaultSettings\<rparr>"

subsection \<open>Settings store\<close>

text \<open>The argument of \<open>saveSettings\<close>: an object holding any of the five keys.\<close>

record settings_patch =
  newRequireBiometric :: "bool option"
  newLockOnMinimize :: "bool option"
  newAutoLockMinutes :: "nat option"
  newSecureClipboard :: "bool option"
  newPreventScreenCapture :: "bool option"

text \<open>\<open>{ ...this.settings, ...newSettings }\<close>.\<close>

definition spread :: "settings \<Rightarrow> settings_patch \<Rightarrow> settings" where
  "spread s n =
     \<lparr>requireBiometric = (case newRequireBiometric n of Some b \<Rightarrow> b | None \<Rightarrow> requireBiometric s),
      lockOnMinimize = (case newLockOnMinimize n of Some b \<Rightarrow> b | None \<Rightarrow> lockOnMinimize s),
      autoLockMinutes = (case newAutoLockMinutes n of Some m \<Rightarrow> m | None \<Rightarrow> autoLockMinutes s),
      secureClipboard = (case newSecureClipboard n of Some b \<Rightarrow> b | None \<Rightarrow> secureClipboard s),
      preventScreenCapture =
        (case newPreventScreenCapture n of Some b \<Rightarrow> b | None \<Rightarrow> preventScreenCapture s)\<rparr>"

definition settingsJson :: "settings \<Rightarrow> json" where
  "settingsJson s = JObj
     [(''requireBiometric'', JBool (requireBiometric s)),
      (''lockOnMinimize'', JBool (lockOnMinimize s)),
      (''autoLockMinutes'', JNum (int (autoLockMinutes s))),
      (''secureClipboard'', JBool (secureClipboard s)),
      (''preventScreenCapture'', JBool (preventScreenCapture s))]"

text \<open>
  The two assignments come first, so they stand whatever happens next; a throw of
  \<open>encryptString\<close> or \<open>writeFileSync\<close> is caught and gives \<open>false\<close>.
\<close>

definition saveSettings ::
  "env \<Rightarrow> settings_patch \<Rightarrow> session_protection \<Rightarrow> world \<Rightarrow> bool \<times> session_protection \<times> world" where
  "saveSettings env newSettings this w =
     (let merged = spread (settings this) newSettings;
          this' = this\<lparr>settings := merged, lockTimeoutMs := autoLockMinutes merged * 60 * 1000\<rparr>
      in if isEncryptionAvailable env then
           (case encryptString env (jsonStringify env (settingsJson merged)) of
              None \<Rightarrow> (False, this', w)
            | Some encrypted \<Rightarrow>
                (case writeFileSync env (configFile env) encrypted w of
                   (ok, w') \<Rightarrow> (ok, this', w')))
         else (True, this', w))"

text \<open>
  \<open>_loadSettings\<close>, which the constructor runs on the field initialisers. The object
  that \<open>JSON.parse\<close> returns is spread over the settings: of a key that occurs twice
  the last value counts. Keys that are no setting, and values that a setting's type
  cannot hold, are left out of the model. Every throw is caught and leaves the settings
  as they were.
\<close>

definition patchOfJson :: "json \<Rightarrow> settings_patch" where
  "patchOfJson parsed =
     (case parsed of
        JObj kvs \<Rightarrow>
          \<lparr>newRequireBiometric =
             (case map_of (rev kvs) ''requireBiometric'' of Some (JBool b) \<Rightarrow> Some b | _ \<Rightarrow> None),
           newLockOnMinimize =
             (case map_of (rev kvs) ''lockOnMinimize'' of Some (JBool b) \<Rightarrow> Some b | _ \<Rightarrow> None),
           newAutoLockMinutes =
             (case map_of (rev kvs) ''autoLockMinutes'' of
                Some (JNum m) \<Rightarrow> if 0 \<le> m then Some (nat m) else None
              | _ \<Rightarrow> None),
           newSecureClipboard =
             (case map_of (rev kvs) ''secureClipboard'' of Some (JBool b) \<Rightarrow> Some b | _ \<Rightarrow> None),
           newPreventScreenCapture =
             (case map_of (rev kvs) ''preventScreenCapture'' of
                Some (JBool b) \<Rightarrow> Some b
              | _ \<Rightarrow> None)\<rparr>
      | _ \<Rightarrow>
          \<lparr>newRequireBiometric = None, newLockOnMinimize = None, newAutoLockMinutes = None,
           newSecureClipboard = None, newPreventScreenCapture = None\<rparr>)"

definition loadSettings ::
  "env \<Rightarrow> session_protection \<Rightarrow> world \<Rightarrow> session_protection \<times> world" where
  "loadSettings env this w =
     (if existsSync (configFile env) w then
        (case readFileSync env (configFile env) w of
           (None, w1) \<Rightarrow> (this, w1)
         | (Some encryptedConfig, w1) \<Rightarrow>
             if isEncryptionAvailable env then
               (case decryptString env encryptedConfig of
                  None \<Rightarrow> (this, w1)
                | Some decrypted \<Rightarrow>
                    (case jsonParse env decrypted of
                       None \<Rightarrow> (this, w1)
                     | Some parsed \<Rightarrow>
                         (this\<lparr>settings := spread (settings this) (patchOfJson parsed)\<rparr>, w1)))
             else (this, w1))
      else (this, w))"



subsection \<open>Key manager\<close>

text \<open>
  \<open>saveSessionKey\<close> catches what it throws: a failed \<open>encryptString\<close> or
  \<open>writeFileSync\<close> leaves the key unsaved and is only logged.
\<close>

definition saveSessionKey :: "env \<Rightarrow> string \<Rightarrow> world \<Rightarrow> world" where
  "saveSessionKey env key w =
     (if isEncryptionAvailable env then
        (case encryptString env key of
           None \<Rightarrow> w
         | Some encryptedKey \<Rightarrow> snd (writeFileSync env (keyFile env) encryptedKey w))
      else snd (writeFileSync env (keyFile env) key w))"

text \<open>
  \<open>crypto.randomBytes(32).toString('hex')\<close>, then \<open>saveSessionKey\<close>: the last three
  lines of the \<open>else\<close> branch and of the \<open>catch\<close> block of \<open>getSessionKey\<close>.
\<close>

definition newSessionKey :: "env \<Rightarrow> world \<Rightarrow> string \<times> world" where
  "newSessionKey env w =
     (case randomBytes env 32 w of
        (raw, w1) \<Rightarrow> (toHex raw, saveSessionKey env (toHex raw) w1))"

definition getSessionKey :: "env \<Rightarrow> world \<Rightarrow> string \<times> world" where
  "getSessionKey env w =
     (if existsSync (keyFile env) w then
        (case readFileSync env (keyFile env) w of
           (None, w1) \<Rightarrow> newSessionKey env w1
         | (Some encryptedKey, w1) \<Rightarrow>
             if isEncryptionAvailable env then
               (case decryptString env encryptedKey of
                  None \<Rightarrow> newSessionKey env w1
                | Some key \<Rightarrow> (key, w1))
             else (encryptedKey, w1))
      else newSessionKey env w)"

subsection \<open>Cipher\<close>

record envelope =
  iv :: string
  data :: string
  tag :: string
  v :: nat

text \<open>\<open>encrypt\<close> returns the envelope, or \<open>null\<close> (\<open>None\<close>) when the cipher throws.\<close>

definition encrypt :: "env \<Rightarrow> json \<Rightarrow> world \<Rightarrow> envelope option \<times> world" where
  "encrypt env payload w =
     (case getSessionKey env w of
        (keyHex, w1) \<Rightarrow>
          (case randomBytes env 16 w1 of
             (ivBytes, w2) \<Rightarrow>
               (case gcmEncrypt env (fromHex keyHex) ivBytes (jsonStringify env payload) of
                  None \<Rightarrow> (None, w2)
                | Some (encrypted, authTag) \<Rightarrow>
                    (Some \<lparr>iv = toHex ivBytes, data = toHex encrypted, tag = toHex authTag, v = 2\<rparr>,
                     w2))))"

text \<open>
  \<open>decrypt\<close> returns the parsed value; every throw inside it is caught and gives
  \<open>null\<close>, which is \<open>JNull\<close>.
\<close>

definition decrypt :: "env \<Rightarrow> envelope \<Rightarrow> world \<Rightarrow> json \<times> world" where
  "decrypt env encryptedData w =
     (case getSessionKey env w of
        (keyHex, w1) \<Rightarrow>
          (case gcmDecrypt env (fromHex keyHex) (fromHex (iv encryptedData))
                  (fromHex (tag encryptedData)) (fromHex (data encryptedData)) of
             None \<Rightarrow> (JNull, w1)
           | Some decrypted \<Rightarrow>
               (case jsonParse env decrypted of
                  None \<Rightarrow> (JNull, w1)
                | Some value \<Rightarrow> (value, w1))))"

subsection \<open>Lock state machine\<close>

text \<open>
  \<open>setTimeout(callback, ms)\<close>: Node sets a delay below 1 or above \<open>2^31 - 1\<close> to 1.
  The result is the time the new timer has left.
\<close>

definition setTimeout :: "nat \<Rightarrow> nat" where
  "setTimeout ms = (if ms < 1 \<or> 2147483647 < ms then 1 else ms)"

definition clearLockTimeout :: "session_protection \<Rightarrow> session_protection" where
  "clearLockTimeout this =
     (case lockTimeout this of
        Some r \<Rightarrow> this\<lparr>lockTimeout := None\<rparr>
      | None \<Rightarrow> this)"

definition lock :: "session_protection \<Rightarrow> bool \<times> session_protection" where
  "lock this = (True, clearLockTimeout (this\<lparr>isLocked := True\<rparr>))"

definition resetLockTimeout :: "session_protection \<Rightarrow> session_protection" where
  "resetLockTimeout this =
     (clearLockTimeout this)\<lparr>lockTimeout := Some (setTimeout (lockTimeoutMs this))\<rparr>"

text \<open>
  The event loop: \<open>ms\<close> milliseconds pass with no call into the module. A pending timer
  that has no more than \<open>ms\<close> left fires, and its callback is \<open>this.lock()\<close>.
\<close>

definition elapse :: "nat \<Rightarrow> session_protection \<Rightarrow> session_protection" where
  "elapse ms this =
     (case lockTimeout this of
        None \<Rightarrow> this
      | Some r \<Rightarrow> if r \<le> ms then snd (lock this) else this\<lparr>lockTimeout := Some (r - ms)\<rparr>)"

text \<open>
  \<open>promptTouchID\<close> resolves (\<open>True\<close>) or rejects (\<open>False\<close>); on \<open>win32\<close> the
  method is a placeholder that returns \<open>true\<close>.
\<close>

definition authenticateWithBiometrics :: "env \<Rightarrow> bool" where
  "authenticateWithBiometrics env =
     (case platform env of
        Darwin \<Rightarrow> promptTouchID env
      | Win32 \<Rightarrow> True
      | OtherPlatform \<Rightarrow> False)"

definition unlock :: "env \<Rightarrow> bool \<Rightarrow> session_protection \<Rightarrow> bool \<times> session_protection" where
  "unlock env useBiometric this =
     (if useBiometric \<and> requireBiometric (settings this) \<and> \<not> authenticateWithBiometrics env
      then (False, this)
      else (True, resetLockTimeout (this\<lparr>isLocked := False\<rparr>)))"

subsection \<open>Secure eraser\<close>





section \<open>What the claims speak of\<close>



text \<open>
  The contract of the cipher object. \<open>gcmCorrect\<close>: decrypting what encryption produced
  gives the text back. \<open>gcmAuthentic\<close>: a 16-byte tag is accepted only with the
  ciphertext it was computed for, and under one key and iv two ciphertexts have the same
  tag only when they are the same ciphertext. The first half is how GCM verifies (it
  recomputes the tag); the second is the usual idealisation of a message authentication
  code, which a 128-bit tag meets up to a negligible chance of collision.
\<close>

definition gcmCorrect :: "env \<Rightarrow> bool" where
  "gcmCorrect env \<longleftrightarrow>
     (\<forall>key ivBytes text ct authTag.
        gcmEncrypt env key ivBytes text = Some (ct, authTag) \<longrightarrow>
        gcmDecrypt env key ivBytes authTag ct = Some text)"


text \<open>
  \<open>noThrow env w w'\<close>: none of the calls into \<open>fs\<close> made between the worlds \<open>w\<close>
  and \<open>w'\<close> was one that fails. \<open>gone env w\<close>: neither the three protected files
  nor the secure directory exist.
\<close>

definition noThrow :: "env \<Rightarrow> world \<Rightarrow> world \<Rightarrow> bool" where
  "noThrow env w w' \<longleftrightarrow> (\<forall>k \<in> {ioCount w ..< ioCount w'}. \<not> ioFails env k)"





section \<open>Sample collaborators\<close>

text \<open>
  Concrete collaborators and states, on which the theorems below are run. They stand for
  Electron and Node in the worked instances only; every theorem is stated for an
  arbitrary \<open>env\<close>.
\<close>

definition sampleEncryptString :: "string \<Rightarrow> bytes option" where
  "sampleEncryptString s = Some (''v10'' @ s)"

definition sampleDecryptString :: "bytes \<Rightarrow> string option" where
  "sampleDecryptString b = (if take 3 b = ''v10'' then Some (drop 3 b) else None)"

text \<open>A JSON codec for \<open>null\<close>, the booleans and the numbers 0 to 9.\<close>

fun sampleStringify :: "json \<Rightarrow> string" where
  "sampleStringify JNull = ''null''"
| "sampleStringify (JBool b) = (if b then ''true'' else ''false'')"
| "sampleStringify (JNum n) = (if 0 \<le> n \<and> n < 10 then [hexDigit (nat n)] else ''0'')"
| "sampleStringify (JStr s) = CHR 0x22 # s @ [CHR 0x22]"
| "sampleStringify (JArr xs) = ''[]''"
| "sampleStringify (JObj kvs) = ''{}''"

definition sampleParse :: "string \<Rightarrow> json option" where
  "sampleParse s =
     (if s = ''null'' then Some JNull
      else if s = ''true'' then Some (JBool True)
      else if s = ''false'' then Some (JBool False)
      else case s of
             [c] \<Rightarrow> (case hexValue c of
                       Some d \<Rightarrow> if d < 10 then Some (JNum (int d)) else None
                     | None \<Rightarrow> None)
           | _ \<Rightarrow> None)"

text \<open>
  A cipher on texts of at most 15 bytes under a 32-byte key: every byte is shifted by the
  sum of the bytes of the key and of the iv, and the 16-byte tag is the length of the
  ciphertext, the ciphertext and padding. Decryption recomputes the tag.
\<close>

definition sampleShift :: "bytes \<Rightarrow> bytes \<Rightarrow> nat" where
  "sampleShift key ivBytes =
     (sum_list (map of_char key) + sum_list (map of_char ivBytes)) mod 256"

definition sampleTag :: "bytes \<Rightarrow> bytes" where
  "sampleTag ct = char_of (length ct) # ct @ replicate (15 - length ct) (CHR 0x00)"

definition sampleGcmEncrypt :: "bytes \<Rightarrow> bytes \<Rightarrow> string \<Rightarrow> (bytes \<times> bytes) option" where
  "sampleGcmEncrypt key ivBytes text =
     (if length key = 32 \<and> length text \<le> 15 then
        (let ct = map (\<lambda>c. char_of (of_char c + sampleShift key ivBytes)) text
         in Some (ct, sampleTag ct))
      else None)"

definition sampleGcmDecrypt :: "bytes \<Rightarrow> bytes \<Rightarrow> bytes \<Rightarrow> bytes \<Rightarrow> string option" where
  "sampleGcmDecrypt key ivBytes authTag ct =
     (if length key = 32 \<and> length ct \<le> 15 \<and> authTag = sampleTag ct then
        Some (map (\<lambda>c. char_of (of_char c + (256 - sampleShift key ivBytes))) ct)
      else None)"

definition sampleEnv :: env where
  "sampleEnv =
     \<lparr>userData = [''home''], platform = Darwin, isEncryptionAvailable = True,
      encryptString = sampleEncryptString, decryptString = sampleDecryptString,
      promptTouchID = False,
      gcmEncrypt = sampleGcmEncrypt, gcmDecrypt = sampleGcmDecrypt,
      jsonStringify = sampleStringify, jsonParse = sampleParse,
      randomSource = (\<lambda>n. char_of n), ioFails = (\<lambda>n. False)\<rparr>"

text \<open>A first run: the secure directory exists and is empty.\<close>

definition sampleWorld :: world where
  "sampleWorld =
     \<lparr>files = Map.empty, dirs = {[''home''], [''home'', ''secure-session'']},
      rngPos = 0, ioCount = 0, trace = []\<rparr>"

text \<open>\<open>{}\<close>, the argument that changes no setting.\<close>

definition noChange :: settings_patch where
  "noChange = \<lparr>newRequireBiometric = None, newLockOnMinimize = None,
     newAutoLockMinutes = None, newSecureClipboard = None, newPreventScreenCapture = None\<rparr>"




text \<open>Two successive calls \<open>encrypt(5)\<close> on the first run.\<close>

definition sampleFirst :: "envelope option \<times> world" where
  "sampleFirst = encrypt sampleEnv (JNum 5) sampleWorld"

definition sampleSecond :: "envelope option \<times> world" where
  "sampleSecond = encrypt sampleEnv (JNum 5) (snd sampleFirst)"

section \<open>Buffers and hex: lemmas\<close>

lemma hexValue_hexDigit_all: "list_all (\<lambda>n. hexValue (hexDigit n) = Some n) [0..<16]"
  by code_simp

lemma hexValue_hexDigit: "n < 16 \<Longrightarrow> hexValue (hexDigit n) = Some n"
  using hexValue_hexDigit_all by (simp add: list_all_iff)

lemma of_char_div16: "(of_char b :: nat) div 16 < 16"
  using nat_of_char_less_256 [of b] by arith

lemma fromHex_toHex: "fromHex (toHex bs) = bs"
  by (induction bs) (simp_all add: toHex_def hexValue_hexDigit of_char_div16)


lemma toHex_eq_iff: "toHex xs = toHex ys \<longleftrightarrow> xs = ys"
  by (metis fromHex_toHex)

lemmas sample_defs = sampleEnv_def sampleWorld_def sampleEncryptString_def
  sampleDecryptString_def sampleGcmEncrypt_def sampleGcmDecrypt_def sampleShift_def
  sampleTag_def sampleParse_def

lemmas fs_defs = existsSync_def readFileSync_def writeFileSync_def statSync_def unlinkSync_def
  rmSync_def randomBytes_def tick_def keyFile_def configFile_def integrityFile_def dataPath_def

section \<open>Lock state machine: theorems\<close>

lemma authenticateWithBiometrics_iff:
  "authenticateWithBiometrics env \<longleftrightarrow>
     platform env = Win32 \<or> (platform env = Darwin \<and> promptTouchID env)"
  by (cases "platform env") (simp_all add: authenticateWithBiometrics_def)

lemma resetLockTimeout_eq:
  "resetLockTimeout this = this\<lparr>lockTimeout := Some (setTimeout (lockTimeoutMs this))\<rparr>"
  by (cases "lockTimeout this") (simp_all add: resetLockTimeout_def clearLockTimeout_def)

text \<open>
  On \<open>win32\<close> the biometric check cannot come back negative: \<open>unlock(true)\<close> unlocks.
\<close>

lemma unlock_win32:
  "platform env = Win32 \<Longrightarrow>
   unlock env True this =
     (True, this\<lparr>isLocked := False, lockTimeout := Some (setTimeout (lockTimeoutMs this))\<rparr>)"
  by (simp add: unlock_def authenticateWithBiometrics_def resetLockTimeout_eq)



text \<open>
  C6. With \<open>settings.requireBiometric\<close> set, \<open>unlock(false)\<close> returns \<open>true\<close>, clears
  \<open>isLocked\<close> and arms a new timer. The result does not mention the collaborators: the
  biometric check is not consulted.
\<close>

theorem unlock_without_biometric:
  assumes "requireBiometric (settings this)"
  shows "unlock env False this =
     (True, this\<lparr>isLocked := False, lockTimeout := Some (setTimeout (lockTimeoutMs this))\<rparr>) \<and>
     unlock env False this = unlock env' False this"
  by (simp add: unlock_def resetLockTimeout_eq)

theorem unlock_without_biometric_witness:
  "unlock sampleEnv False (initialFields\<lparr>isLocked := True,
       settings := defaultSettings\<lparr>requireBiometric := True\<rparr>\<rparr>)
     = (True, initialFields\<lparr>isLocked := False, lockTimeout := Some 1800000,
          settings := defaultSettings\<lparr>requireBiometric := True\<rparr>\<rparr>)"
  using unlock_without_biometric [where env = sampleEnv and env' = sampleEnv and
      this = "initialFields\<lparr>isLocked := True,
       settings := defaultSettings\<lparr>requireBiometric := True\<rparr>\<rparr>"]
  by (simp add: initialFields_def defaultSettings_def setTimeout_def)

section \<open>Cipher: theorems\<close>

subsection \<open>What \<open>encrypt\<close> and \<open>decrypt\<close> compute\<close>

lemma encrypt_Some:
  assumes "encrypt env payload w = (Some e, w1)"
  shows "\<exists>ct authTag.
           gcmEncrypt env (fromHex (fst (getSessionKey env w)))
             (map (randomSource env)
                [rngPos (snd (getSessionKey env w)) ..< rngPos (snd (getSessionKey env w)) + 16])
             (jsonStringify env payload) = Some (ct, authTag) \<and>
           e = \<lparr>iv = toHex (map (randomSource env)
                  [rngPos (snd (getSessionKey env w)) ..< rngPos (snd (getSessionKey env w)) + 16]),
                data = toHex ct, tag = toHex authTag, v = 2\<rparr> \<and>
           w1 = (snd (getSessionKey env w))\<lparr>rngPos := rngPos (snd (getSessionKey env w)) + 16\<rparr>"
  using assms
  by (auto simp add: encrypt_def randomBytes_def split: prod.splits option.splits)

lemma decrypt_eq:
  "fst (decrypt env x u) =
     (case gcmDecrypt env (fromHex (fst (getSessionKey env u))) (fromHex (iv x))
             (fromHex (tag x)) (fromHex (data x)) of
        None \<Rightarrow> JNull
      | Some decrypted \<Rightarrow> (case jsonParse env decrypted of None \<Rightarrow> JNull | Some value \<Rightarrow> value))"
  by (simp add: decrypt_def split: prod.splits option.splits)

lemma rngPos_writeFileSync: "rngPos (snd (writeFileSync env p d w)) = rngPos w"
  by (simp add: writeFileSync_def tick_def)

lemma rngPos_saveSessionKey: "rngPos (saveSessionKey env key w) = rngPos w"
  by (simp add: saveSessionKey_def rngPos_writeFileSync split: option.splits)

lemma rngPos_newSessionKey: "rngPos (snd (newSessionKey env w)) = rngPos w + 32"
  by (simp add: newSessionKey_def randomBytes_def rngPos_saveSessionKey)

lemma rngPos_getSessionKey: "rngPos w \<le> rngPos (snd (getSessionKey env w))"
  by (simp add: getSessionKey_def readFileSync_def tick_def rngPos_newSessionKey
      split: option.splits)

subsection \<open>The sample cipher meets the contract\<close>


lemma mod256_cancel2:
  fixes x s :: nat
  assumes "x < 256" "s < 256"
  shows "((x + s) mod 256 + (256 - s)) mod 256 = x"
proof (cases "x + s < 256")
  case True
  with assms show ?thesis by simp
next
  case False
  with assms have "(x + s) mod 256 = x + s - 256"
    by (simp add: mod_if)
  with False assms show ?thesis by simp
qed


lemma unshift_shift:
  "(s::nat) < 256 \<Longrightarrow> char_of ((of_char c + s) mod 256 + (256 - s)) = (c :: char)"
proof -
  assume s: "s < 256"
  have "char_of ((of_char c + s) mod 256 + (256 - s))
          = (char_of (((of_char c + s) mod 256 + (256 - s)) mod 256) :: char)"
    by (simp only: char_of_mod_256)
  also have "\<dots> = char_of (of_char c :: nat)"
    using mod256_cancel2 [OF nat_of_char_less_256 s] by simp
  finally show ?thesis by simp
qed

lemma sampleShift_less: "sampleShift key ivBytes < 256"
  by (simp add: sampleShift_def)


lemma gcmCorrect_sampleEnv: "gcmCorrect sampleEnv"
  by (auto simp add: gcmCorrect_def sampleEnv_def sampleGcmEncrypt_def sampleGcmDecrypt_def
        Let_def unshift_shift sampleShift_less o_def split: if_splits)


subsection \<open>The sample run\<close>

lemma upt_0_32:
  "[0..<32::nat] = [0, 1, 2, 3, 4, 5, 6, 7, 8, 9, 10, 11, 12, 13, 14, 15, 16, 17, 18, 19, 20,
     21, 22, 23, 24, 25, 26, 27, 28, 29, 30, 31]"
  by (simp add: upt_conv_Cons)

lemma zeros28: "concat (replicate 14 ''00'') = ''0000000000000000000000000000''"
  by (simp add: eval_nat_numeral)

lemma sampleFirst_eq:
  "sampleFirst =
     (Some \<lparr>iv = ''202122232425262728292a2b2c2d2e2f'', data = ''9d'',
            tag = ''019d0000000000000000000000000000'', v = 2\<rparr>,
      \<lparr>files = [[''home'', ''secure-session'', ''.session-key''] \<mapsto>
          ''v10000102030405060708090a0b0c0d0e0f101112131415161718191a1b1c1d1e1f''],
       dirs = {[''home''], [''home'', ''secure-session'']}, rngPos = 48, ioCount = 1,
       trace = [WriteFile [''home'', ''secure-session'', ''.session-key'']
          ''v10000102030405060708090a0b0c0d0e0f101112131415161718191a1b1c1d1e1f'']\<rparr>)"
  apply (simp add: sampleFirst_def encrypt_def getSessionKey_def newSessionKey_def
       saveSessionKey_def sample_defs fs_defs fromHex_toHex hexDigit_def)
  apply (simp add: upt_0_32)
  apply (simp add: toHex_def hexDigit_def zeros28)
  done

lemma sampleKey_fromHex:
  "fromHex ''000102030405060708090a0b0c0d0e0f101112131415161718191a1b1c1d1e1f''
     = map char_of [0..<32::nat]"
proof -
  have "''000102030405060708090a0b0c0d0e0f101112131415161718191a1b1c1d1e1f''
          = toHex (map char_of [0..<32::nat])"
    by (simp add: upt_0_32 toHex_def hexDigit_def)
  then show ?thesis by (simp only: fromHex_toHex)
qed

lemma sampleSecond_eq:
  "fst sampleSecond =
     Some \<lparr>iv = ''303132333435363738393a3b3c3d3e3f'', data = ''9d'',
            tag = ''019d0000000000000000000000000000'', v = 2\<rparr>"
  apply (simp add: sampleSecond_def sampleFirst_eq)
  apply (simp add: encrypt_def getSessionKey_def sample_defs fs_defs sampleKey_fromHex hexDigit_def
           del: fromHex.simps)
  apply (simp add: upt_0_32)
  apply (simp add: toHex_def hexDigit_def zeros28)
  done

lemma sampleSecond_key:
  "fst (getSessionKey sampleEnv (snd sampleFirst)) = fst (getSessionKey sampleEnv sampleWorld)"
  apply (simp add: sampleFirst_eq)
  apply (simp add: getSessionKey_def newSessionKey_def sample_defs fs_defs)
  apply (simp add: upt_0_32 toHex_def hexDigit_def)
  done

lemma sampleFirst_encrypt:
  "encrypt sampleEnv (JNum 5) sampleWorld = (Some (the (fst sampleFirst)), snd sampleFirst)"
  by (simp add: sampleFirst_def [symmetric] sampleFirst_eq)

lemma sampleSecond_encrypt:
  "encrypt sampleEnv (JNum 5) (snd sampleFirst) = (Some (the (fst sampleSecond)), snd sampleSecond)"
  by (simp add: sampleSecond_def [symmetric] prod_eq_iff sampleSecond_eq)

subsection \<open>Round trip\<close>

text \<open>
  C1. A payload that \<open>JSON\<close> serialises and parses back is returned by \<open>decrypt\<close> from
  the envelope that \<open>encrypt\<close> made of it, when \<open>decrypt\<close> obtains the session key that
  \<open>encrypt\<close> obtained and the cipher decrypts what it encrypted.
\<close>

theorem decrypt_encrypt:
  assumes "gcmCorrect env"
    and "jsonParse env (jsonStringify env payload) = Some payload"
    and "encrypt env payload w = (Some e, w1)"
    and "fst (getSessionKey env w1) = fst (getSessionKey env w)"
  shows "fst (decrypt env e w1) = payload"
proof -
  from encrypt_Some [OF assms(3)] obtain ct authTag ivBytes where
    enc: "gcmEncrypt env (fromHex (fst (getSessionKey env w))) ivBytes (jsonStringify env payload)
            = Some (ct, authTag)"
    and e: "e = \<lparr>iv = toHex ivBytes, data = toHex ct, tag = toHex authTag, v = 2\<rparr>"
    by blast
  from assms(1) enc have
    "gcmDecrypt env (fromHex (fst (getSessionKey env w))) ivBytes authTag ct
       = Some (jsonStringify env payload)"
    by (simp add: gcmCorrect_def)
  with assms(2,4) e show ?thesis
    by (simp add: decrypt_eq fromHex_toHex)
qed

theorem decrypt_encrypt_witness:
  "fst (decrypt sampleEnv (the (fst sampleFirst)) (snd sampleFirst)) = JNum 5"
proof -
  have "jsonParse sampleEnv (jsonStringify sampleEnv (JNum 5)) = Some (JNum 5)"
    by (simp add: sampleEnv_def sampleParse_def hexDigit_def hexValue_def)
  then show ?thesis
    using decrypt_encrypt [OF gcmCorrect_sampleEnv _ sampleFirst_encrypt sampleSecond_key]
    by blast
qed

subsection \<open>Tampering\<close>



subsection \<open>Fresh ivs\<close>

text \<open>
  The second half of C3 does not hold. On the sample run, two successive calls
  \<open>encrypt(5)\<close> draw different ivs and produce the same ciphertext \<open>9d\<close>.
\<close>

theorem encrypt_same_ciphertext:
  "map_option iv (fst sampleFirst) = Some ''202122232425262728292a2b2c2d2e2f'' \<and>
   map_option iv (fst sampleSecond) = Some ''303132333435363738393a3b3c3d3e3f'' \<and>
   map_option data (fst sampleFirst) = Some ''9d'' \<and>
   map_option data (fst sampleSecond) = Some ''9d''"
  by (simp add: sampleFirst_eq sampleSecond_eq)

text \<open>
  This is not a matter of the sample cipher. A cipher that keeps the length of the text,
  as AES-GCM does, has 256 ciphertexts for a text of one byte, such as the JSON text of a
  digit: under every key two different 16-byte ivs give the same ciphertext.
\<close>

lemma card_bytes: "card {xs :: char list. length xs = n} = 256 ^ n"
proof -
  have "{xs :: char list. length xs = n} = {xs. set xs \<subseteq> UNIV \<and> length xs = n}"
    by simp
  then show ?thesis
    using card_lists_length_eq [of "UNIV :: char set" n] by (simp add: card_UNIV_char)
qed

lemma one_byte_payload_collision:
  assumes keeps: "\<And>ivBytes ct authTag.
      gcmEncrypt env key ivBytes [c] = Some (ct, authTag) \<Longrightarrow> length ct = 1"
    and total: "\<And>ivBytes. length ivBytes = 16 \<Longrightarrow> gcmEncrypt env key ivBytes [c] \<noteq> None"
  shows "\<exists>iv1 iv2 ct tag1 tag2. length iv1 = 16 \<and> length iv2 = 16 \<and> iv1 \<noteq> iv2 \<and>
           gcmEncrypt env key iv1 [c] = Some (ct, tag1) \<and>
           gcmEncrypt env key iv2 [c] = Some (ct, tag2)"
proof -
  let ?S = "{xs :: char list. length xs = 16}"
  let ?f = "\<lambda>ivBytes. fst (the (gcmEncrypt env key ivBytes [c]))"
  have fin: "finite {xs :: char list. length xs = 1}"
    using finite_lists_length_eq [of "UNIV :: char set" 1] by simp
  have "?f ` ?S \<subseteq> {xs. length xs = 1}"
  proof
    fix y assume "y \<in> ?f ` ?S"
    then obtain x where x: "length x = 16" and y: "y = ?f x" by auto
    from total [OF x] obtain ct authTag where "gcmEncrypt env key x [c] = Some (ct, authTag)"
      by (cases "gcmEncrypt env key x [c]") auto
    with keeps y show "y \<in> {xs. length xs = 1}" by simp
  qed
  then have "card (?f ` ?S) \<le> card {xs :: char list. length xs = 1}"
    using fin by (rule card_mono [rotated])
  also have "\<dots> < card ?S"
    by (simp add: card_bytes)
  finally have "\<not> inj_on ?f ?S"
    using pigeonhole by blast
  then obtain iv1 iv2 where iv: "length iv1 = 16" "length iv2 = 16" "iv1 \<noteq> iv2" "?f iv1 = ?f iv2"
    by (auto simp add: inj_on_def)
  from total [OF iv(1)] obtain ct1 tag1 where 1: "gcmEncrypt env key iv1 [c] = Some (ct1, tag1)"
    by (cases "gcmEncrypt env key iv1 [c]") auto
  from total [OF iv(2)] obtain ct2 tag2 where 2: "gcmEncrypt env key iv2 [c] = Some (ct2, tag2)"
    by (cases "gcmEncrypt env key iv2 [c]") auto
  from iv(4) 1 2 have "ct1 = ct2" by simp
  with iv 1 2 show ?thesis by blast
qed

text \<open>
  C3, as amended. Two successive calls \<open>encrypt(P)\<close> each draw 16 bytes from the random
  source for the iv, the second draw after the first; the ivs are the hex of the draws,
  16 bytes each, and they differ whenever the draws differ.
\<close>

theorem encrypt_fresh_iv:
  assumes "encrypt env payload w = (Some e1, w1)"
    and "encrypt env payload w1 = (Some e2, w2)"
  shows "(let p1 = rngPos (snd (getSessionKey env w));
              p2 = rngPos (snd (getSessionKey env w1));
              draw1 = map (randomSource env) [p1 ..< p1 + 16];
              draw2 = map (randomSource env) [p2 ..< p2 + 16]
          in iv e1 = toHex draw1 \<and> iv e2 = toHex draw2 \<and> p1 + 16 \<le> p2 \<and>
             length (fromHex (iv e1)) = 16 \<and> length (fromHex (iv e2)) = 16 \<and>
             (draw1 \<noteq> draw2 \<longrightarrow> iv e1 \<noteq> iv e2))"
proof -
  from encrypt_Some [OF assms(1)] have
    e1: "iv e1 = toHex (map (randomSource env)
           [rngPos (snd (getSessionKey env w)) ..< rngPos (snd (getSessionKey env w)) + 16])"
    and w1: "rngPos w1 = rngPos (snd (getSessionKey env w)) + 16"
    by auto
  from encrypt_Some [OF assms(2)] have
    e2: "iv e2 = toHex (map (randomSource env)
           [rngPos (snd (getSessionKey env w1)) ..< rngPos (snd (getSessionKey env w1)) + 16])"
    by auto
  from w1 rngPos_getSessionKey [of w1 env] have
    "rngPos (snd (getSessionKey env w)) + 16 \<le> rngPos (snd (getSessionKey env w1))"
    by simp
  with e1 e2 show ?thesis
    by (simp add: Let_def fromHex_toHex toHex_eq_iff)
qed

theorem encrypt_fresh_iv_witness:
  "iv (the (fst sampleFirst)) = toHex (map char_of [32 ..< 48 :: nat]) \<and>
   iv (the (fst sampleSecond)) = toHex (map char_of [48 ..< 64 :: nat]) \<and>
   iv (the (fst sampleFirst)) \<noteq> iv (the (fst sampleSecond))"
proof -
  have 3: "rngPos (snd (getSessionKey sampleEnv sampleWorld)) = 32"
    by (simp add: rngPos_newSessionKey getSessionKey_def existsSync_def keyFile_def dataPath_def
          sampleEnv_def sampleWorld_def)
  have 4: "rngPos (snd (getSessionKey sampleEnv (snd sampleFirst))) = 48"
    by (simp add: sampleFirst_eq getSessionKey_def sample_defs fs_defs)
  have 5: "randomSource sampleEnv = char_of"
    by (simp add: sampleEnv_def)
  show ?thesis
    using encrypt_fresh_iv [OF sampleFirst_encrypt sampleSecond_encrypt]
    by (simp add: 3 4 5 Let_def char_of_eq_iff toHex_eq_iff)
qed

section \<open>Inactivity timer: theorems\<close>

text \<open>
  After \<open>saveSettings({ autoLockMinutes: n })\<close> with \<open>n > 0\<close> (and \<open>n\<close> minutes within
  the range of a timer), \<open>resetLockTimeout\<close> arms a timer that locks the session once
  \<open>n\<close> minutes have passed, and not before.
\<close>

lemma saveSettings_then_timeout:
  assumes "0 < n" and "n * 60 * 1000 \<le> 2147483647"
    and "saveSettings env (noChange\<lparr>newAutoLockMinutes := Some n\<rparr>) this w = (ok, this', w')"
  shows "isLocked (elapse (n * 60 * 1000) (resetLockTimeout this'))"
    and "ms < n * 60 * 1000 \<Longrightarrow> isLocked (elapse ms (resetLockTimeout this')) = isLocked this"
  using assms
  by (auto simp add: saveSettings_def Let_def resetLockTimeout_eq elapse_def lock_def
        clearLockTimeout_def setTimeout_def spread_def noChange_def
        split: option.splits prod.splits if_splits)

text \<open>
  C4 does not hold of the code. \<open>resetLockTimeout\<close> arms a timer in every state, also
  when \<open>autoLockMinutes\<close> is 0: after \<open>saveSettings({ autoLockMinutes: 0 })\<close> the delay
  is \<open>lockTimeoutMs = 0\<close>, which \<open>setTimeout\<close> runs as 1 ms, and one millisecond later
  the session is locked. And the timer runs for \<open>autoLockMinutes\<close> minutes only after
  \<open>saveSettings\<close>: \<open>_loadSettings\<close> restores the settings and leaves \<open>lockTimeoutMs\<close>
  at the constructor's 30 minutes, so with 15 minutes restored the session is not locked
  after 15 minutes of inactivity.
\<close>

theorem resetLockTimeout_autoLock_zero:
  "lockTimeout (resetLockTimeout this) = Some (setTimeout (lockTimeoutMs this)) \<and>
   autoLockMinutes (settings (fst (snd (saveSettings sampleEnv
      (noChange\<lparr>newAutoLockMinutes := Some 0\<rparr>) initialFields sampleWorld)))) = 0 \<and>
   lockTimeout (resetLockTimeout (fst (snd (saveSettings sampleEnv
      (noChange\<lparr>newAutoLockMinutes := Some 0\<rparr>) initialFields sampleWorld)))) = Some 1 \<and>
   isLocked (elapse 1 (resetLockTimeout (fst (snd (saveSettings sampleEnv
      (noChange\<lparr>newAutoLockMinutes := Some 0\<rparr>) initialFields sampleWorld))))) \<and>
   lockTimeoutMs (fst (loadSettings env this w)) = lockTimeoutMs this \<and>
   \<not> isLocked (elapse (15 * 60 * 1000)
      (resetLockTimeout (initialFields\<lparr>settings := defaultSettings\<lparr>autoLockMinutes := 15\<rparr>\<rparr>)))"
proof -
  have "lockTimeoutMs (fst (loadSettings env this w)) = lockTimeoutMs this"
    by (simp add: loadSettings_def split: prod.splits option.splits)
  then show ?thesis
    by (simp add: resetLockTimeout_eq saveSettings_def Let_def sampleEnv_def sampleEncryptString_def
        noChange_def initialFields_def defaultSettings_def spread_def setTimeout_def elapse_def
        lock_def clearLockTimeout_def split: prod.splits)
qed

section \<open>Settings store: theorems\<close>



section \<open>Key manager: theorems\<close>









section \<open>Secure eraser: theorems\<close>

subsection \<open>Composing the steps\<close>



lemma noThrow_step:
  "ioCount w' = Suc (ioCount w) \<Longrightarrow> \<not> ioFails env (ioCount w) \<Longrightarrow> noThrow env w w'"
  by (simp add: noThrow_def)







lemma writeFileSync_not_dir: "writeFileSync env p d w = (True, w') \<Longrightarrow> p \<notin> dirs w"
  by (auto simp add: writeFileSync_def split: if_splits)










subsection \<open>A run in which nothing throws\<close>



subsection \<open>The contract\<close>



end
